theory Spec2Isabelle
  imports Main
begin

section \<open>JavaScript values and strings\<close>

text \<open>
  The client (\<^verbatim>\<open>lib/client.ts\<close>, and its older sibling \<^verbatim>\<open>index.js\<close>) only ever
  inspects an option value through \<^verbatim>\<open>typeof\<close>, \<^verbatim>\<open>=== undefined\<close>, \<^verbatim>\<open>toLowerCase\<close> and the
  string conversion that \<^verbatim>\<open>encodeURIComponent\<close> applies to its argument.

  \<^item> A JavaScript string is modelled by its bytes in UTF-8 (\<open>string\<close>). A lone surrogate,
    which a JavaScript string may hold and UTF-8 proper cannot express, is written in the
    generalised form of the encoding: the three bytes \<^verbatim>\<open>ED A0..BF 80..BF\<close>, which a
    well-formed string never contains.
  \<^item> A number is represented by the text that its string conversion yields
    (\<^verbatim>\<open>20\<close> is \<open>JNum ''20''\<close>), since no arithmetic is done on option values.
  \<^item> \<open>JInherited k\<close> is the value found under the name \<open>k\<close> on \<^verbatim>\<open>Object.prototype\<close>: what a
    property read \<^verbatim>\<open>obj[k]\<close> on a plain object returns when \<open>k\<close> is not an own property.
\<close>

datatype jsval = JUndefined | JNull | JBool bool | JNum string | JStr string | JInherited string

text \<open>
  A plain object is the list of its own enumerable properties, in the order in which
  \<^verbatim>\<open>Object.entries\<close> and \<^verbatim>\<open>for ... in\<close> enumerate them (keys are distinct).
\<close>

type_synonym jsobject = "(string \<times> jsval) list"

text \<open>The argument of an endpoint: the caller may pass no object at all.\<close>

datatype options_arg = OptUndefined | OptNull | OptObject jsobject

text \<open>The property names that every plain object inherits from \<^verbatim>\<open>Object.prototype\<close>.\<close>

definition objectPrototypeKeys :: "string list" where
  "objectPrototypeKeys =
     [''constructor'', ''__defineGetter__'', ''__defineSetter__'', ''hasOwnProperty'',
      ''__lookupGetter__'', ''__lookupSetter__'', ''isPrototypeOf'', ''propertyIsEnumerable'',
      ''toString'', ''valueOf'', ''__proto__'', ''toLocaleString'']"

text \<open>
  \<^verbatim>\<open>hash[key]\<close> read for its truth value, where \<^verbatim>\<open>hash\<close> was built by
  \<^verbatim>\<open>Object.assign({}, ...)\<close> with own keys \<open>own\<close>, all of them holding truthy values
  (\<^verbatim>\<open>true\<close> or a function): the read is truthy for an own key, and also for every
  inherited name, whose value is a function (or the prototype object itself).
\<close>

definition truthyMember :: "string list \<Rightarrow> string \<Rightarrow> bool" where
  "truthyMember own key \<longleftrightarrow> key \<in> set own \<or> key \<in> set objectPrototypeKeys"

text \<open>\<^verbatim>\<open>options[key]\<close> on a plain object.\<close>

definition getProp :: "jsobject \<Rightarrow> string \<Rightarrow> jsval" where
  "getProp obj key =
     (case map_of obj key of
        Some v \<Rightarrow> v
      | None \<Rightarrow> if key \<in> set objectPrototypeKeys then JInherited key else JUndefined)"

fun typeof :: "jsval \<Rightarrow> string" where
  "typeof JUndefined = ''undefined''"
| "typeof JNull = ''object''"
| "typeof (JBool b) = ''boolean''"
| "typeof (JNum n) = ''number''"
| "typeof (JStr s) = ''string''"
| "typeof (JInherited k) = (if k = ''__proto__'' then ''object'' else ''function'')"

text \<open>
  The string conversion of a value. For an inherited built-in function the text is the one
  Node prints (the language leaves its exact form to the implementation).
\<close>

fun toString :: "jsval \<Rightarrow> string" where
  "toString JUndefined = ''undefined''"
| "toString JNull = ''null''"
| "toString (JBool b) = (if b then ''true'' else ''false'')"
| "toString (JNum n) = n"
| "toString (JStr s) = s"
| "toString (JInherited k) =
     (if k = ''__proto__'' then ''[object Object]''
      else ''function '' @ (if k = ''constructor'' then ''Object'' else k) @ ''() { [native code] }'')"

subsection \<open>toLowerCase, join\<close>

text \<open>
  \<^verbatim>\<open>String.prototype.toLowerCase\<close>. On a string of ASCII characters it maps the 26 capital
  letters and nothing else. On every other string it applies the Unicode case mapping of
  the language, which is no part of the repository: it is the parameter \<open>unicodeLower\<close>, a
  function of the whole string, as the mapping of a character may depend on its neighbours.
\<close>

type_synonym case_mapping = "string \<Rightarrow> string"

definition upperLetters :: string where
  "upperLetters = ''ABCDEFGHIJKLMNOPQRSTUVWXYZ''"

definition lowerLetters :: string where
  "lowerLetters = ''abcdefghijklmnopqrstuvwxyz''"

definition lowerChar :: "char \<Rightarrow> char" where
  "lowerChar c = (case map_of (zip upperLetters lowerLetters) c of Some d \<Rightarrow> d | None \<Rightarrow> c)"

definition isAscii :: "string \<Rightarrow> bool" where
  "isAscii s \<longleftrightarrow> list_all (\<lambda>c. \<not> digit7 c) s"

definition toLowerCase :: "case_mapping \<Rightarrow> string \<Rightarrow> string" where
  "toLowerCase unicodeLower s = (if isAscii s then map lowerChar s else unicodeLower s)"

fun join :: "string \<Rightarrow> string list \<Rightarrow> string" where
  "join sep [] = []"
| "join sep [x] = x"
| "join sep (x # y # ys) = x @ sep @ join sep (y # ys)"

subsection \<open>encodeURIComponent\<close>

text \<open>
  A thrown \<^verbatim>\<open>Error\<close> carries its message. \<open>TypeError\<close> and \<open>URIError\<close> are what the language
  itself raises: the first on a method call on a value that has no such method and on a
  property read on \<^verbatim>\<open>null\<close> or \<^verbatim>\<open>undefined\<close>, the second when \<^verbatim>\<open>encodeURIComponent\<close>
  meets a lone surrogate.
\<close>

datatype js_error = Error string | TypeError | URIError

text \<open>
  The built-in of the language: it raises URIError on a string that holds a lone surrogate;
  otherwise every byte of the UTF-8 form is replaced by \<^verbatim>\<open>%XX\<close> (upper-case hexadecimal)
  unless it is one of the unescaped characters, which are the letters, the decimal digits
  and the marks \<^verbatim>\<open>- _ . ! ~ * ' ( )\<close>.
\<close>

definition uriAlpha :: string where
  "uriAlpha = lowerLetters @ upperLetters"

definition decimalDigit :: string where
  "decimalDigit = ''0123456789''"

definition uriMark :: string where
  "uriMark = [CHR ''-'', CHR ''_'', CHR ''.'', CHR ''!'', CHR ''~'', CHR ''*'', CHR 0x27,
              CHR ''('', CHR '')'']"

definition uriUnescaped :: string where
  "uriUnescaped = uriAlpha @ decimalDigit @ uriMark"

definition hexDigit :: "nat \<Rightarrow> char" where
  "hexDigit n = ''0123456789ABCDEF'' ! (n mod 16)"

definition percentByte :: "char \<Rightarrow> string" where
  "percentByte c = [CHR ''%'', hexDigit (of_char c div 16), hexDigit (of_char c mod 16)]"

definition encodeChar :: "char \<Rightarrow> string" where
  "encodeChar c = (if c \<in> set uriUnescaped then [c] else percentByte c)"

definition percentEncoded :: "string \<Rightarrow> string" where
  "percentEncoded s = concat (map encodeChar s)"

fun hasLoneSurrogate :: "string \<Rightarrow> bool" where
  "hasLoneSurrogate (c # d # s) \<longleftrightarrow>
     c = CHR 0xED \<and> (160::nat) \<le> of_char d \<and> of_char d \<le> (191::nat) \<or> hasLoneSurrogate (d # s)"
| "hasLoneSurrogate s \<longleftrightarrow> False"

definition encodeURIComponent :: "string \<Rightarrow> js_error + string" where
  "encodeURIComponent s = (if hasLoneSurrogate s then Inl URIError else Inr (percentEncoded s))"

section \<open>Option validator framework\<close>

type_synonym validator = "jsval \<Rightarrow> js_error + unit"
type_synonym validation_factory = "string \<Rightarrow> validator"

text \<open>
  \<^verbatim>\<open>allowOptional(fn)\<close> returns \<^verbatim>\<open>fn\<close> itself, the required form of the rule, with a member
  \<^verbatim>\<open>optional\<close> attached; \<open>optional fn\<close> is that member.
\<close>

definition optional :: "validation_factory \<Rightarrow> validation_factory" where
  "optional fn optionName value =
     (if value = JUndefined then Inr () else fn optionName value)"

definition validateEnumMembership :: "case_mapping \<Rightarrow> string list \<Rightarrow> validation_factory" where
  "validateEnumMembership unicodeLower values optionName value =
     (let errorMessage = ''Option '' @ optionName @ '' must be one of '' @ join '', '' values @ ''.''
      in case value of
           JStr s \<Rightarrow>
             if \<not> truthyMember (map (toLowerCase unicodeLower) values) (toLowerCase unicodeLower s)
             then Inl (Error errorMessage) else Inr ()
         | _ \<Rightarrow> Inl (Error errorMessage))"

definition validateIsString :: validation_factory where
  "validateIsString optionName value =
     (if typeof value \<noteq> ''string''
      then Inl (Error (''Option '' @ optionName @ '' must be a string.'')) else Inr ())"

definition validateIsBoolean :: validation_factory where
  "validateIsBoolean optionName value =
     (if typeof value \<noteq> ''boolean''
      then Inl (Error (''Option '' @ optionName @ '' must be a boolean.'')) else Inr ())"

definition validateIsNumber :: validation_factory where
  "validateIsNumber optionName value =
     (if typeof value \<noteq> ''number''
      then Inl (Error (''Option '' @ optionName @ '' must be a number.'')) else Inr ())"

text \<open>
  The second loop of \<^verbatim>\<open>validate\<close>: every declared rule, in the declared order, applied to
  \<^verbatim>\<open>options[key]\<close>; the first rule that throws ends the loop.
\<close>

fun validateEach :: "(string \<times> validator) list \<Rightarrow> jsobject \<Rightarrow> js_error + unit" where
  "validateEach [] options = Inr ()"
| "validateEach ((key, validate) # rest) options =
     (case validate (getProp options key) of
        Inl e \<Rightarrow> Inl e
      | Inr _ \<Rightarrow> validateEach rest options)"

text \<open>
  \<open>validators\<close> is the schema object (distinct keys, in declaration order). The first loop
  reads \<^verbatim>\<open>validateFunctions[key]\<close> for its truth value.
\<close>

definition createOptionsValidator ::
  "(string \<times> validation_factory) list \<Rightarrow> options_arg \<Rightarrow> js_error + unit" where
  "createOptionsValidator validators options =
     (let validateFunctions = map (\<lambda>(key, createValidator). (key, createValidator key)) validators
      in case options of
           OptObject obj \<Rightarrow>
             (case find (\<lambda>key. \<not> truthyMember (map fst validateFunctions) key) (map fst obj) of
                Some key \<Rightarrow> Inl (Error (''Option '' @ key @ '' is not supported.''))
              | None \<Rightarrow> validateEach validateFunctions obj)
         | _ \<Rightarrow> Inl (Error ''Options is required.''))"

subsection \<open>The schemas of the endpoints\<close>

definition availableBibles :: "string list" where
  "availableBibles =
     [''asv'', ''arvandyke'', ''kjv'', ''lsg'', ''byz'', ''darby'', ''elzevir'', ''itdiodati1649'',
      ''emphbbl'', ''kjv1900'', ''kjvapoc'', ''leb'', ''scrmorph'', ''fi-raamattu'', ''rvr60'',
      ''rva'', ''bb-sbb-rusbt'', ''eo-zamenbib'', ''tr1881'', ''tr1894mr'', ''svv'', ''stephens'',
      ''tanakh'', ''wbtc-ptbrnt'', ''wh1881mr'', ''ylt'']"

definition bibleVersionValidator :: "case_mapping \<Rightarrow> validation_factory" where
  "bibleVersionValidator unicodeLower = validateEnumMembership unicodeLower availableBibles"

definition bibleContentSchema :: "case_mapping \<Rightarrow> (string \<times> validation_factory) list" where
  "bibleContentSchema unicodeLower =
     [(''bible'', bibleVersionValidator unicodeLower),
      (''passage'', validateIsString),
      (''format'', validateEnumMembership unicodeLower [''txt'', ''html'', ''txt'', ''html'']),
      (''style'', optional (validateEnumMembership unicodeLower
         [''fullyFormatted'', ''oneVersePerLine'', ''oneVersePerLineFullReference'', ''quotation'',
          ''simpleParagraphs'', ''bibleTextOnly'', ''orationOneParagraph'',
          ''orationOneVersePerLine'', ''orationBibleParagraphs'',
          ''fullyFormattedWithFootnotes''])),
      (''formatting'', optional validateIsString),
      (''redLetter'', optional validateIsBoolean),
      (''footnotes'', optional validateIsBoolean),
      (''citation'', optional validateIsBoolean),
      (''paragraphs'', optional validateIsBoolean),
      (''fullText'', optional validateIsBoolean),
      (''header'', optional validateIsString),
      (''eachVerse'', optional validateIsString),
      (''footer'', optional validateIsString)]"

definition pagingOptions :: "(string \<times> validation_factory) list" where
  "pagingOptions = [(''start'', optional validateIsNumber), (''limit'', optional validateIsNumber)]"

definition searchSchema :: "case_mapping \<Rightarrow> (string \<times> validation_factory) list" where
  "searchSchema unicodeLower =
     [(''bible'', bibleVersionValidator unicodeLower),
      (''query'', validateIsString),
      (''mode'', optional (validateEnumMembership unicodeLower [''verse'', ''fuzzy''])),
      (''passages'', optional validateIsString),
      (''preview'', optional (validateEnumMembership unicodeLower [''none'', ''text'', ''html''])),
      (''sort'', optional (validateEnumMembership unicodeLower [''relevance'', ''passage'']))] @ pagingOptions"

definition specificBibleSchema :: "case_mapping \<Rightarrow> (string \<times> validation_factory) list" where
  "specificBibleSchema unicodeLower = [(''bible'', bibleVersionValidator unicodeLower)]"

definition findSchema :: "(string \<times> validation_factory) list" where
  "findSchema =
     [(''query'', optional validateIsString),
      (''strictQuery'', optional validateIsBoolean)] @ pagingOptions"

definition parseSchema :: "case_mapping \<Rightarrow> (string \<times> validation_factory) list" where
  "parseSchema unicodeLower =
     [(''passage'', validateIsString),
      (''style'', optional (validateEnumMembership unicodeLower [''short'', ''medium'', ''long'']))]"

definition scanSchema :: "(string \<times> validation_factory) list" where
  "scanSchema = [(''text'', validateIsString), (''tagChapters'', optional validateIsBoolean)]"

definition tagSchema :: "(string \<times> validation_factory) list" where
  "tagSchema =
     [(''text'', optional validateIsString),
      (''url'', optional validateIsString),
      (''tagFormat'', optional validateIsString),
      (''tagChapters'', optional validateIsBoolean)]"

definition compareSchema :: "(string \<times> validation_factory) list" where
  "compareSchema = [(''first'', validateIsString), (''second'', validateIsString)]"

definition validateBibleContentOptions :: "case_mapping \<Rightarrow> options_arg \<Rightarrow> js_error + unit" where
  "validateBibleContentOptions unicodeLower = createOptionsValidator (bibleContentSchema unicodeLower)"

definition validateSearchOptions :: "case_mapping \<Rightarrow> options_arg \<Rightarrow> js_error + unit" where
  "validateSearchOptions unicodeLower = createOptionsValidator (searchSchema unicodeLower)"

definition validateSpecificBibleOptions :: "case_mapping \<Rightarrow> options_arg \<Rightarrow> js_error + unit" where
  "validateSpecificBibleOptions unicodeLower = createOptionsValidator (specificBibleSchema unicodeLower)"

definition validateFindOptions :: "options_arg \<Rightarrow> js_error + unit" where
  "validateFindOptions = createOptionsValidator findSchema"

definition validateParseOptions :: "case_mapping \<Rightarrow> options_arg \<Rightarrow> js_error + unit" where
  "validateParseOptions unicodeLower = createOptionsValidator (parseSchema unicodeLower)"

definition validateScanOptions :: "options_arg \<Rightarrow> js_error + unit" where
  "validateScanOptions = createOptionsValidator scanSchema"

definition validateTagOptions :: "options_arg \<Rightarrow> js_error + unit" where
  "validateTagOptions = createOptionsValidator tagSchema"

definition validateCompareOptions :: "options_arg \<Rightarrow> js_error + unit" where
  "validateCompareOptions = createOptionsValidator compareSchema"

section \<open>URL template renderer\<close>

definition baseUrl :: string where
  "baseUrl = ''https://api.biblia.com/v1/''"

text \<open>
  \<^verbatim>\<open>urlParts[i]\<close> inside a string concatenation: past the end of the array the read yields
  \<^verbatim>\<open>undefined\<close>, which concatenates as the text \<^verbatim>\<open>undefined\<close>. (A tagged template always
  passes one fragment more than it passes names.)
\<close>

definition part :: "string list \<Rightarrow> nat \<Rightarrow> string" where
  "part urlParts i = (if i < length urlParts then urlParts ! i else ''undefined'')"

text \<open>
  \<^verbatim>\<open>names.map((name, index) => ...).join('')\<close> of \<^verbatim>\<open>lib/client.ts\<close>, from position \<open>index\<close>
  on. The callback runs name by name: it throws at a name whose option is \<^verbatim>\<open>undefined\<close>,
  and \<^verbatim>\<open>encodeURIComponent\<close> may throw on the option of a name.
\<close>

fun renderPath :: "string list \<Rightarrow> jsobject \<Rightarrow> nat \<Rightarrow> string list \<Rightarrow> js_error + string" where
  "renderPath urlParts options index [] = Inr []"
| "renderPath urlParts options index (name # names) =
     (let value = getProp options name
      in if value = JUndefined then Inl (Error (''Parameter '' @ name @ '' is required.''))
         else case encodeURIComponent (toString value) of
                Inl e \<Rightarrow> Inl e
              | Inr encoded \<Rightarrow>
                  (case renderPath urlParts options (Suc index) names of
                     Inl e \<Rightarrow> Inl e
                   | Inr rest \<Rightarrow> Inr (encoded @ part urlParts (Suc index) @ rest)))"

text \<open>
  \<^verbatim>\<open>`${encodeURIComponent(key)}=${encodeURIComponent(value)}`\<close>, the key first; and the
  \<^verbatim>\<open>map\<close> of it over the entries, which the first throw ends.
\<close>

definition renderPair :: "string \<times> jsval \<Rightarrow> js_error + string" where
  "renderPair entry =
     (case encodeURIComponent (fst entry) of
        Inl e \<Rightarrow> Inl e
      | Inr key \<Rightarrow>
          (case encodeURIComponent (toString (snd entry)) of
             Inl e \<Rightarrow> Inl e
           | Inr value \<Rightarrow> Inr (key @ ''='' @ value)))"

fun renderPairs :: "(string \<times> jsval) list \<Rightarrow> js_error + string list" where
  "renderPairs [] = Inr []"
| "renderPairs (entry # entries) =
     (case renderPair entry of
        Inl e \<Rightarrow> Inl e
      | Inr pair \<Rightarrow>
          (case renderPairs entries of Inl e \<Rightarrow> Inl e | Inr pairs \<Rightarrow> Inr (pair # pairs)))"

text \<open>
  \<^verbatim>\<open>createUrlTemplate(urlParts, ...names)\<close> of \<^verbatim>\<open>lib/client.ts\<close>, closed over \<open>apiKey\<close>. On
  \<^verbatim>\<open>null\<close> or \<^verbatim>\<open>undefined\<close> the property read, or else \<^verbatim>\<open>Object.entries\<close>, raises a
  TypeError. The path is rendered before the query string.
\<close>

definition renderUrl :: "string \<Rightarrow> string list \<Rightarrow> string list \<Rightarrow> options_arg \<Rightarrow> js_error + string" where
  "renderUrl apiKey urlParts names options =
     (case options of
        OptObject obj \<Rightarrow>
          (case renderPath urlParts obj 0 names of
             Inl e \<Rightarrow> Inl e
           | Inr path \<Rightarrow>
               (case renderPairs
                       (filter (\<lambda>entry. \<not> truthyMember names (fst entry) \<and> snd entry \<noteq> JUndefined) obj
                        @ [(''key'', JStr apiKey)]) of
                  Inl e \<Rightarrow> Inl e
                | Inr pairs \<Rightarrow>
                    (let queryParameters = join ''&'' pairs
                     in Inr (baseUrl @ part urlParts 0 @ path @ ''?'' @ queryParameters))))
      | _ \<Rightarrow> Inl TypeError)"

section \<open>Response transformer and endpoint factory\<close>

text \<open>
  The response envelope that the injected \<^verbatim>\<open>fetch\<close> resolves to. \<open>headers\<close> is
  \<^verbatim>\<open>headers.get\<close> (\<open>None\<close> for \<^verbatim>\<open>null\<close>); \<open>jsonBody\<close>, \<open>textBody\<close> and \<open>blobBody\<close> are
  what the promises returned by \<^verbatim>\<open>json()\<close>, \<^verbatim>\<open>text()\<close> and \<^verbatim>\<open>blob()\<close> settle to: a
  rejection (\<open>Inl\<close>) or a value. The status is compared with 200 only, and is an integer.
\<close>

record ('j, 'b, 'x) response =
  status :: int
  headers :: "string \<Rightarrow> string option"
  jsonBody :: "'x + 'j"
  textBody :: "'x + string"
  blobBody :: "'x + 'b"

text \<open>
  What an endpoint call ends with when it does not return: an error thrown by the client's
  own code, the response envelope itself, or a rejection that came out of \<^verbatim>\<open>fetch\<close> or
  out of a body-decoding method.
\<close>

datatype ('r, 'x) thrown = Thrown js_error | ThrownResponse 'r | Rejected 'x

datatype ('j, 'b) decoded = JsonResult 'j | TextResult string | BlobResult 'b

text \<open>The calls made on the injected capabilities, in the order in which they are made.\<close>

datatype event = CallFetch string | CallJson | CallText | CallBlob

type_synonym ('j, 'b, 'x) outcome =
  "event list \<times> ((('j, 'b, 'x) response, 'x) thrown + ('j, 'b) decoded)"

text \<open>
  \<^verbatim>\<open>(response.headers.get('Content-Type') || '').split(';', 2)[0]\<close>: the header up to its first
  semicolon, the empty string when the header is missing.
\<close>

definition contentType :: "('j, 'b, 'x) response \<Rightarrow> string" where
  "contentType response =
     takeWhile (\<lambda>c. c \<noteq> CHR '';'')
       (case headers response ''Content-Type'' of None \<Rightarrow> [] | Some h \<Rightarrow> h)"

definition expectContentType :: "('j, 'b, 'x) response \<Rightarrow> string list \<Rightarrow> js_error + unit" where
  "expectContentType response expectedTypes =
     (if contentType response \<notin> set expectedTypes
      then Inl (Error (''Unexpected response Content-Type: '' @ contentType response))
      else Inr ())"

definition expectJsonResult :: "('j, 'b, 'x) response \<Rightarrow> ('j, 'b, 'x) outcome" where
  "expectJsonResult response =
     (case expectContentType response [''application/json''] of
        Inl e \<Rightarrow> ([], Inl (Thrown e))
      | Inr _ \<Rightarrow>
          ([CallJson],
           case jsonBody response of Inl x \<Rightarrow> Inl (Rejected x) | Inr j \<Rightarrow> Inr (JsonResult j)))"

definition expectTextResult :: "('j, 'b, 'x) response \<Rightarrow> ('j, 'b, 'x) outcome" where
  "expectTextResult response =
     (case expectContentType response [''text/html'', ''text/plain''] of
        Inl e \<Rightarrow> ([], Inl (Thrown e))
      | Inr _ \<Rightarrow>
          ([CallText],
           case textBody response of Inl x \<Rightarrow> Inl (Rejected x) | Inr t \<Rightarrow> Inr (TextResult t)))"

definition expectImageResult :: "('j, 'b, 'x) response \<Rightarrow> ('j, 'b, 'x) outcome" where
  "expectImageResult response =
     (case expectContentType response [''image/jpeg''] of
        Inl e \<Rightarrow> ([], Inl (Thrown e))
      | Inr _ \<Rightarrow>
          ([CallBlob],
           case blobBody response of Inl x \<Rightarrow> Inl (Rejected x) | Inr b \<Rightarrow> Inr (BlobResult b)))"

text \<open>
  \<^verbatim>\<open>createEndpoint\<close> of \<^verbatim>\<open>lib/client.ts\<close>. The argument of \<^verbatim>\<open>fetch\<close> is evaluated before the
  call, so an error thrown by \<^verbatim>\<open>renderUrl\<close> leaves \<^verbatim>\<open>fetch\<close> uncalled.
\<close>

definition createEndpoint ::
  "(string \<Rightarrow> 'x + ('j, 'b, 'x) response) \<Rightarrow> (options_arg \<Rightarrow> js_error + unit) \<Rightarrow>
   (options_arg \<Rightarrow> js_error + string) \<Rightarrow> (('j, 'b, 'x) response \<Rightarrow> ('j, 'b, 'x) outcome) \<Rightarrow>
   options_arg \<Rightarrow> ('j, 'b, 'x) outcome" where
  "createEndpoint fetch validateOptions render transformResponse options =
     (case validateOptions options of
        Inl e \<Rightarrow> ([], Inl (Thrown e))
      | Inr _ \<Rightarrow>
          (case render options of
             Inl e \<Rightarrow> ([], Inl (Thrown e))
           | Inr url \<Rightarrow>
               (case fetch url of
                  Inl x \<Rightarrow> ([CallFetch url], Inl (Rejected x))
                | Inr response \<Rightarrow>
                    if status response \<noteq> 200 then ([CallFetch url], Inl (ThrownResponse response))
                    else (CallFetch url # fst (transformResponse response),
                          snd (transformResponse response)))))"

section \<open>Client factory\<close>

datatype endpoint_name =
  Content | TableOfContents | Search | FindBible | Find | Image | Parse | Scan | Tag | Compare

fun validatorOf :: "case_mapping \<Rightarrow> endpoint_name \<Rightarrow> options_arg \<Rightarrow> js_error + unit" where
  "validatorOf unicodeLower Content = validateBibleContentOptions unicodeLower"
| "validatorOf unicodeLower TableOfContents = validateSpecificBibleOptions unicodeLower"
| "validatorOf unicodeLower Search = validateSearchOptions unicodeLower"
| "validatorOf unicodeLower FindBible = validateSpecificBibleOptions unicodeLower"
| "validatorOf unicodeLower Find = validateFindOptions"
| "validatorOf unicodeLower Image = validateSpecificBibleOptions unicodeLower"
| "validatorOf unicodeLower Parse = validateParseOptions unicodeLower"
| "validatorOf unicodeLower Scan = validateScanOptions"
| "validatorOf unicodeLower Tag = validateTagOptions"
| "validatorOf unicodeLower Compare = validateCompareOptions"

text \<open>The tagged templates: the literal fragments and the placeholder names.\<close>

fun urlPartsOf :: "endpoint_name \<Rightarrow> string list" where
  "urlPartsOf Content = [''bible/content/'', ''.'', []]"
| "urlPartsOf TableOfContents = [''bible/contents/'', []]"
| "urlPartsOf Search = [''bible/search/'', []]"
| "urlPartsOf FindBible = [''bible/find/'', []]"
| "urlPartsOf Find = [''bible/find'']"
| "urlPartsOf Image = [''bible/image/'', []]"
| "urlPartsOf Parse = [''bible/parse'']"
| "urlPartsOf Scan = [''bible/scan'']"
| "urlPartsOf Tag = [''bible/tag'']"
| "urlPartsOf Compare = [''bible/compare'']"

fun namesOf :: "endpoint_name \<Rightarrow> string list" where
  "namesOf Content = [''bible'', ''format'']"
| "namesOf TableOfContents = [''bible'']"
| "namesOf Search = [''bible'']"
| "namesOf FindBible = [''bible'']"
| "namesOf Image = [''bible'']"
| "namesOf e = []"

fun transformerOf :: "endpoint_name \<Rightarrow> ('j, 'b, 'x) response \<Rightarrow> ('j, 'b, 'x) outcome" where
  "transformerOf Content = expectTextResult"
| "transformerOf Image = expectImageResult"
| "transformerOf e = expectJsonResult"

text \<open>
  The client, for a host whose case mapping is \<open>unicodeLower\<close>: one endpoint for each name.
\<close>

definition createBibliaApiClient ::
  "case_mapping \<Rightarrow> string \<Rightarrow> (string \<Rightarrow> 'x + ('j, 'b, 'x) response) \<Rightarrow> endpoint_name \<Rightarrow>
   options_arg \<Rightarrow> ('j, 'b, 'x) outcome" where
  "createBibliaApiClient unicodeLower apiKey fetch e =
     createEndpoint fetch (validatorOf unicodeLower e) (renderUrl apiKey (urlPartsOf e) (namesOf e))
       (transformerOf e)"

section \<open>The older client: index.js\<close>

text \<open>
  \<^verbatim>\<open>index.js\<close> holds an earlier form of the same client. Its \<^verbatim>\<open>allowOptional\<close> and
  \<^verbatim>\<open>createOptionsValidator\<close> behave as the ones above. Its enum rule calls
  \<^verbatim>\<open>value.toLowerCase()\<close> without looking at the type of the value first, which raises a
  TypeError on everything that is not a string; its type rules are built by one factory.
\<close>

definition validateEnumMembership_js :: "case_mapping \<Rightarrow> string list \<Rightarrow> validation_factory" where
  "validateEnumMembership_js unicodeLower values optionName value =
     (let errorMessage = ''Option '' @ optionName @ '' must be one of '' @ join '', '' values @ ''.''
      in case value of
           JStr s \<Rightarrow>
             if \<not> truthyMember (map (toLowerCase unicodeLower) values) (toLowerCase unicodeLower s)
             then Inl (Error errorMessage) else Inr ()
         | _ \<Rightarrow> Inl TypeError)"

definition validateTypeOf :: "string \<Rightarrow> validation_factory" where
  "validateTypeOf expectedType optionName value =
     (if typeof value \<noteq> expectedType
      then Inl (Error (''Option '' @ optionName @ '' must be a '' @ expectedType @ ''.''))
      else Inr ())"

text \<open>
  Its \<^verbatim>\<open>renderUrl\<close> converts whatever \<^verbatim>\<open>options[name]\<close> yields, and keeps every entry whose
  key is no placeholder name.
\<close>

fun renderPath_js :: "string list \<Rightarrow> jsobject \<Rightarrow> nat \<Rightarrow> string list \<Rightarrow> js_error + string" where
  "renderPath_js urlParts options index [] = Inr []"
| "renderPath_js urlParts options index (name # names) =
     (case encodeURIComponent (toString (getProp options name)) of
        Inl e \<Rightarrow> Inl e
      | Inr encoded \<Rightarrow>
          (case renderPath_js urlParts options (Suc index) names of
             Inl e \<Rightarrow> Inl e
           | Inr rest \<Rightarrow> Inr (encoded @ part urlParts (Suc index) @ rest)))"

definition renderUrl_js :: "string \<Rightarrow> string list \<Rightarrow> string list \<Rightarrow> options_arg \<Rightarrow> js_error + string" where
  "renderUrl_js apiKey urlParts names options =
     (case options of
        OptObject obj \<Rightarrow>
          (case renderPath_js urlParts obj 0 names of
             Inl e \<Rightarrow> Inl e
           | Inr path \<Rightarrow>
               (case renderPairs
                       (filter (\<lambda>entry. \<not> truthyMember names (fst entry)) obj
                        @ [(''key'', JStr apiKey)]) of
                  Inl e \<Rightarrow> Inl e
                | Inr pairs \<Rightarrow>
                    (let queryParameters = join ''&'' pairs
                     in Inr (baseUrl @ part urlParts 0 @ path @ ''?'' @ queryParameters))))
      | _ \<Rightarrow> Inl TypeError)"

text \<open>Its \<^verbatim>\<open>createEndpoint\<close> picks the decoding method by the content type alone.\<close>

definition createEndpoint_js ::
  "(string \<Rightarrow> 'x + ('j, 'b, 'x) response) \<Rightarrow> (options_arg \<Rightarrow> js_error + unit) \<Rightarrow>
   (options_arg \<Rightarrow> js_error + string) \<Rightarrow> options_arg \<Rightarrow> ('j, 'b, 'x) outcome" where
  "createEndpoint_js fetch validateOptions render options =
     (case validateOptions options of
        Inl e \<Rightarrow> ([], Inl (Thrown e))
      | Inr _ \<Rightarrow>
          (case render options of
             Inl e \<Rightarrow> ([], Inl (Thrown e))
           | Inr url \<Rightarrow>
               (case fetch url of
                  Inl x \<Rightarrow> ([CallFetch url], Inl (Rejected x))
                | Inr response \<Rightarrow>
                    if status response \<noteq> 200 then ([CallFetch url], Inl (ThrownResponse response))
                    else if contentType response = ''application/json''
                    then ([CallFetch url, CallJson],
                          case jsonBody response of
                            Inl x \<Rightarrow> Inl (Rejected x) | Inr j \<Rightarrow> Inr (JsonResult j))
                    else if contentType response = ''text/html''
                            \<or> contentType response = ''text/plain''
                    then ([CallFetch url, CallText],
                          case textBody response of
                            Inl x \<Rightarrow> Inl (Rejected x) | Inr t \<Rightarrow> Inr (TextResult t))
                    else if contentType response = ''image/jpeg''
                    then ([CallFetch url, CallBlob],
                          case blobBody response of
                            Inl x \<Rightarrow> Inl (Rejected x) | Inr b \<Rightarrow> Inr (BlobResult b))
                    else ([CallFetch url],
                          Inl (Thrown (Error (''Unexpected response Content-Type: ''
                                               @ contentType response)))))))"

section \<open>Notions used to state the properties\<close>

text \<open>
  Two strings are equal up to letter case, for the case mapping of the host, when
  \<^verbatim>\<open>toLowerCase\<close> makes them the same string.
\<close>

definition equalIgnoringCase :: "case_mapping \<Rightarrow> string \<Rightarrow> string \<Rightarrow> bool" where
  "equalIgnoringCase unicodeLower s t \<longleftrightarrow> toLowerCase unicodeLower s = toLowerCase unicodeLower t"

text \<open>
  For ASCII strings the same notion, written out without \<^verbatim>\<open>toLowerCase\<close>: two characters
  are case variants when they are equal or are the upper-case and the lower-case form of
  one letter, and two strings differ only in letter case when they are case variants
  position by position.
\<close>

definition caseVariant :: "char \<Rightarrow> char \<Rightarrow> bool" where
  "caseVariant c d \<longleftrightarrow>
     c = d \<or> (c, d) \<in> set (zip upperLetters lowerLetters)
           \<or> (d, c) \<in> set (zip upperLetters lowerLetters)"

definition differsOnlyInCase :: "string \<Rightarrow> string \<Rightarrow> bool" where
  "differsOnlyInCase s t \<longleftrightarrow> list_all2 caseVariant s t"

text \<open>The number of body-decoding calls among the calls made.\<close>

definition decodeCalls :: "event list \<Rightarrow> nat" where
  "decodeCalls events = length (filter (\<lambda>e. e = CallJson \<or> e = CallText \<or> e = CallBlob) events)"

text \<open>
  The characters that the specification lists as encoded, and the ones it lists as passed
  through.
\<close>

definition listedEncoded :: string where
  "listedEncoded = [CHR '':'', CHR ''?'', CHR ''#'', CHR ''['', CHR '']'', CHR ''@'', CHR ''!'',
                    CHR ''$'', CHR ''&'', CHR 0x27, CHR ''('', CHR '')'', CHR ''*'', CHR ''+'',
                    CHR '','', CHR '';'', CHR ''='', CHR ''/'', CHR ''%'', CHR '' '']"

definition listedUnchanged :: string where
  "listedUnchanged = uriAlpha @ decimalDigit @ [CHR ''-'', CHR ''_'', CHR ''.'', CHR ''~'']"

text \<open>The five marks that the specification lists as encoded and the language leaves alone.\<close>

definition unencodedMarks :: string where
  "unencodedMarks = [CHR ''!'', CHR 0x27, CHR ''('', CHR '')'', CHR ''*'']"

text \<open>
  The query string as the specification words it: the entries whose key is no placeholder
  name and whose value is not \<^verbatim>\<open>undefined\<close>, in the order of the object, then the API key.
\<close>

definition specQuery :: "string \<Rightarrow> string list \<Rightarrow> jsobject \<Rightarrow> string" where
  "specQuery apiKey names obj =
     join ''&'' (map (\<lambda>(key, value). percentEncoded key @ ''='' @ percentEncoded (toString value))
       (filter (\<lambda>(key, value). key \<notin> set names \<and> value \<noteq> JUndefined) obj
        @ [(''key'', JStr apiKey)]))"

text \<open>
  The path as the specification words it: for every placeholder, the encoded option followed
  by the next literal fragment.
\<close>

definition specPath :: "string list \<Rightarrow> string list \<Rightarrow> jsobject \<Rightarrow> string" where
  "specPath urlParts names obj =
     concat (map (\<lambda>(name, fragment). percentEncoded (toString (getProp obj name)) @ fragment)
       (zip names (tl urlParts)))"

text \<open>
  Every string that rendering hands to \<^verbatim>\<open>encodeURIComponent\<close> can be encoded: the API key,
  and the keys and the values of the options.
\<close>

definition encodable :: "string \<Rightarrow> jsobject \<Rightarrow> bool" where
  "encodable apiKey obj \<longleftrightarrow>
     \<not> hasLoneSurrogate apiKey
     \<and> list_all (\<lambda>(key, value). \<not> hasLoneSurrogate key \<and> \<not> hasLoneSurrogate (toString value)) obj"

section \<open>Properties of the validator rules\<close>

lemma zip_letters:
  "zip upperLetters lowerLetters =
   [(CHR ''A'', CHR ''a''), (CHR ''B'', CHR ''b''), (CHR ''C'', CHR ''c''), (CHR ''D'', CHR ''d''),
    (CHR ''E'', CHR ''e''), (CHR ''F'', CHR ''f''), (CHR ''G'', CHR ''g''), (CHR ''H'', CHR ''h''),
    (CHR ''I'', CHR ''i''), (CHR ''J'', CHR ''j''), (CHR ''K'', CHR ''k''), (CHR ''L'', CHR ''l''),
    (CHR ''M'', CHR ''m''), (CHR ''N'', CHR ''n''), (CHR ''O'', CHR ''o''), (CHR ''P'', CHR ''p''),
    (CHR ''Q'', CHR ''q''), (CHR ''R'', CHR ''r''), (CHR ''S'', CHR ''s''), (CHR ''T'', CHR ''t''),
    (CHR ''U'', CHR ''u''), (CHR ''V'', CHR ''v''), (CHR ''W'', CHR ''w''), (CHR ''X'', CHR ''x''),
    (CHR ''Y'', CHR ''y''), (CHR ''Z'', CHR ''z'')]"
  by (simp add: upperLetters_def lowerLetters_def)

lemma lowerChar_pair:
  "(c, d) \<in> set (zip upperLetters lowerLetters) \<Longrightarrow>
     lowerChar c = d \<and> lowerChar d = d \<and> \<not> digit7 c \<and> \<not> digit7 d"
  unfolding lowerChar_def zip_letters
  by (elim UnE insertE emptyE | simp only: set_simps)+ simp_all

lemma lowerChar_caseVariant: "caseVariant c d \<Longrightarrow> lowerChar c = lowerChar d"
  unfolding caseVariant_def using lowerChar_pair by metis

lemma digit7_caseVariant: "caseVariant c d \<Longrightarrow> digit7 c = digit7 d"
  unfolding caseVariant_def using lowerChar_pair by metis

lemma isAscii_differsOnlyInCase: "differsOnlyInCase s t \<Longrightarrow> isAscii s = isAscii t"
  unfolding differsOnlyInCase_def isAscii_def
  by (induction s t rule: list_all2_induct) (auto dest: digit7_caseVariant)

lemma lowerChar_differsOnlyInCase: "differsOnlyInCase s t \<Longrightarrow> map lowerChar s = map lowerChar t"
  unfolding differsOnlyInCase_def
  by (induction s t rule: list_all2_induct) (auto dest: lowerChar_caseVariant)

text \<open>
  On ASCII strings, to differ only in letter case is to be equal up to letter case, whatever
  the case mapping of the host does elsewhere.
\<close>

lemma equalIgnoringCase_ascii:
  assumes "isAscii s" and "differsOnlyInCase s t"
  shows "equalIgnoringCase unicodeLower s t"
proof -
  from assms have "isAscii t"
    by (simp add: isAscii_differsOnlyInCase)
  with assms show ?thesis
    by (simp add: equalIgnoringCase_def toLowerCase_def lowerChar_differsOnlyInCase)
qed

lemma enum_accepts_equal_ignoring_case:
  assumes "m \<in> set vs" and "equalIgnoringCase unicodeLower s m"
  shows "validateEnumMembership unicodeLower vs optionName (JStr s) = Inr ()"
proof -
  from assms have "toLowerCase unicodeLower s \<in> set (map (toLowerCase unicodeLower) vs)"
    by (auto simp: equalIgnoringCase_def)
  then show ?thesis
    by (simp add: validateEnumMembership_def truthyMember_def)
qed

text \<open>
  Claim C6. For an enum rule built from the allowed values \<open>vs\<close>, on a host with any case
  mapping: a string that differs from an allowed member only in letter case, that is, one
  that \<^verbatim>\<open>toLowerCase\<close> makes equal to the member, passes (on ASCII strings these are the
  strings that agree with the member letter by letter up to case); every value that is not
  a string fails; and whenever the rule fails, the message is
  \<^verbatim>\<open>Option <name> must be one of <values>.\<close> with the allowed values as declared, in the
  declared order, joined by a comma and a space.
\<close>

theorem enum_membership_rule:
  "(m \<in> set vs \<and> equalIgnoringCase unicodeLower s m
      \<longrightarrow> validateEnumMembership unicodeLower vs optionName (JStr s) = Inr ())
   \<and> (m \<in> set vs \<and> isAscii s \<and> differsOnlyInCase s m
      \<longrightarrow> validateEnumMembership unicodeLower vs optionName (JStr s) = Inr ())
   \<and> (typeof v \<noteq> ''string''
      \<longrightarrow> validateEnumMembership unicodeLower vs optionName v
            = Inl (Error (''Option '' @ optionName @ '' must be one of '' @ join '', '' vs @ ''.'')))
   \<and> (validateEnumMembership unicodeLower vs optionName v = Inl err
      \<longrightarrow> err = Error (''Option '' @ optionName @ '' must be one of '' @ join '', '' vs @ ''.''))"
proof (intro conjI impI)
  assume "m \<in> set vs \<and> equalIgnoringCase unicodeLower s m"
  then show "validateEnumMembership unicodeLower vs optionName (JStr s) = Inr ()"
    using enum_accepts_equal_ignoring_case by blast
next
  assume a: "m \<in> set vs \<and> isAscii s \<and> differsOnlyInCase s m"
  then have "equalIgnoringCase unicodeLower s m"
    by (simp add: equalIgnoringCase_ascii)
  with a show "validateEnumMembership unicodeLower vs optionName (JStr s) = Inr ()"
    using enum_accepts_equal_ignoring_case by blast
next
  assume "typeof v \<noteq> ''string''"
  then show "validateEnumMembership unicodeLower vs optionName v
            = Inl (Error (''Option '' @ optionName @ '' must be one of '' @ join '', '' vs @ ''.''))"
    by (cases v) (simp_all add: validateEnumMembership_def)
next
  assume "validateEnumMembership unicodeLower vs optionName v = Inl err"
  then show "err = Error (''Option '' @ optionName @ '' must be one of '' @ join '', '' vs @ ''.'')"
    by (cases v) (auto simp: validateEnumMembership_def Let_def split: if_splits)
qed

text \<open>
  The witness takes a host that lowers the Kelvin sign (U+212A, the bytes \<^verbatim>\<open>E2 84 AA\<close>) to
  the letter k and a capital E with acute accent (\<^verbatim>\<open>C3 89\<close>) to the small one (\<^verbatim>\<open>C3 A9\<close>).
\<close>

theorem enum_membership_rule_witness:
  "validateEnumMembership
     (\<lambda>s. if s = [CHR 0xE2, CHR 0x84, CHR 0xAA, CHR ''j'', CHR ''v''] then ''kjv''
          else if s = [CHR 0xC3, CHR 0x89] then [CHR 0xC3, CHR 0xA9] else s)
     [''kjv'', [CHR 0xC3, CHR 0xA9]] ''bible''
     (JStr [CHR 0xE2, CHR 0x84, CHR 0xAA, CHR ''j'', CHR ''v'']) = Inr ()
   \<and> validateEnumMembership
     (\<lambda>s. if s = [CHR 0xE2, CHR 0x84, CHR 0xAA, CHR ''j'', CHR ''v''] then ''kjv''
          else if s = [CHR 0xC3, CHR 0x89] then [CHR 0xC3, CHR 0xA9] else s)
     [''kjv'', [CHR 0xC3, CHR 0xA9]] ''bible'' (JStr [CHR 0xC3, CHR 0x89]) = Inr ()
   \<and> validateEnumMembership (\<lambda>s. s) [''txt'', ''html'', ''txt'', ''html''] ''format''
       (JStr ''HtmL'') = Inr ()
   \<and> validateEnumMembership (\<lambda>s. s) [''txt'', ''html'', ''txt'', ''html''] ''format'' (JNum ''7'')
       = Inl (Error ''Option format must be one of txt, html, txt, html.'')"
proof -
  let ?lower = "\<lambda>s. if s = [CHR 0xE2, CHR 0x84, CHR 0xAA, CHR ''j'', CHR ''v''] then ''kjv''
          else if s = [CHR 0xC3, CHR 0x89] then [CHR 0xC3, CHR 0xA9] else s"
  let ?vs = "[''kjv'', [CHR 0xC3, CHR 0xA9]]"
  have k: "''kjv'' \<in> set ?vs
             \<and> equalIgnoringCase ?lower [CHR 0xE2, CHR 0x84, CHR 0xAA, CHR ''j'', CHR ''v''] ''kjv''"
    by (simp add: equalIgnoringCase_def toLowerCase_def isAscii_def lowerChar_def
        upperLetters_def lowerLetters_def)
  have e: "[CHR 0xC3, CHR 0xA9] \<in> set ?vs
             \<and> equalIgnoringCase ?lower [CHR 0xC3, CHR 0x89] [CHR 0xC3, CHR 0xA9]"
    by (simp add: equalIgnoringCase_def toLowerCase_def isAscii_def)
  have d: "''html'' \<in> set [''txt'', ''html'', ''txt'', ''html'']
             \<and> isAscii ''HtmL'' \<and> differsOnlyInCase ''HtmL'' ''html''"
    by (simp add: differsOnlyInCase_def caseVariant_def upperLetters_def lowerLetters_def
        isAscii_def)
  have t: "typeof (JNum ''7'') \<noteq> ''string''"
    by simp
  have f: "validateEnumMembership (\<lambda>s. s) [''txt'', ''html'', ''txt'', ''html''] ''format''
             (JNum ''7'') = Inl (Error ''Option format must be one of txt, html, txt, html.'')"
    by code_simp
  note r1 = enum_membership_rule [where unicodeLower = ?lower and vs = ?vs and m = "''kjv''"
      and s = "[CHR 0xE2, CHR 0x84, CHR 0xAA, CHR ''j'', CHR ''v'']" and optionName = "''bible''",
      THEN conjunct1]
  note r2 = enum_membership_rule [where unicodeLower = ?lower and vs = ?vs
      and m = "[CHR 0xC3, CHR 0xA9]" and s = "[CHR 0xC3, CHR 0x89]" and optionName = "''bible''",
      THEN conjunct1]
  note r3 = enum_membership_rule [where unicodeLower = "\<lambda>s. s" and m = "''html''"
      and s = "''HtmL''" and optionName = "''format''"
      and vs = "[''txt'', ''html'', ''txt'', ''html'']" and v = "JNum ''7''"
      and err = "Error ''Option format must be one of txt, html, txt, html.''",
      THEN conjunct2]
  from r1 k have "validateEnumMembership ?lower ?vs ''bible''
      (JStr [CHR 0xE2, CHR 0x84, CHR 0xAA, CHR ''j'', CHR ''v'']) = Inr ()"
    by blast
  moreover from r2 e have "validateEnumMembership ?lower ?vs ''bible''
      (JStr [CHR 0xC3, CHR 0x89]) = Inr ()"
    by blast
  moreover from r3 d t f have "validateEnumMembership (\<lambda>s. s) [''txt'', ''html'', ''txt'', ''html'']
      ''format'' (JStr ''HtmL'') = Inr ()"
    by blast
  ultimately show ?thesis
    using f by blast
qed

text \<open>
  Claim C10. Only \<^verbatim>\<open>undefined\<close> counts as absence for an optional rule: on \<^verbatim>\<open>undefined\<close> it
  succeeds, and every other value, \<^verbatim>\<open>null\<close> included, is handed to the required form of the
  rule. \<^verbatim>\<open>null\<close> then fails each kind of rule: with the message of the rule for the string,
  boolean, number and enum rules of \<^verbatim>\<open>lib/client.ts\<close> and for the type rules of
  \<^verbatim>\<open>index.js\<close>, and with a TypeError for the enum rule of \<^verbatim>\<open>index.js\<close>.
\<close>

theorem optional_rule_absence:
  "optional fn optionName JUndefined = Inr ()
   \<and> (v \<noteq> JUndefined \<longrightarrow> optional fn optionName v = fn optionName v)
   \<and> optional validateIsString optionName JNull
       = Inl (Error (''Option '' @ optionName @ '' must be a string.''))
   \<and> optional validateIsBoolean optionName JNull
       = Inl (Error (''Option '' @ optionName @ '' must be a boolean.''))
   \<and> optional validateIsNumber optionName JNull
       = Inl (Error (''Option '' @ optionName @ '' must be a number.''))
   \<and> optional (validateEnumMembership unicodeLower vs) optionName JNull
       = Inl (Error (''Option '' @ optionName @ '' must be one of '' @ join '', '' vs @ ''.''))
   \<and> optional (validateTypeOf ''string'') optionName JNull
       = Inl (Error (''Option '' @ optionName @ '' must be a string.''))
   \<and> optional (validateTypeOf ''boolean'') optionName JNull
       = Inl (Error (''Option '' @ optionName @ '' must be a boolean.''))
   \<and> optional (validateTypeOf ''number'') optionName JNull
       = Inl (Error (''Option '' @ optionName @ '' must be a number.''))
   \<and> optional (validateEnumMembership_js unicodeLower vs) optionName JNull = Inl TypeError"
  by (simp add: optional_def validateIsString_def validateIsBoolean_def validateIsNumber_def
      validateEnumMembership_def validateTypeOf_def validateEnumMembership_js_def)

theorem optional_rule_absence_witness:
  "JNull \<noteq> JUndefined
   \<and> optional validateIsString ''header'' JNull = validateIsString ''header'' JNull
   \<and> optional validateIsString ''header'' JNull
       = Inl (Error ''Option header must be a string.'')"
  using optional_rule_absence [where fn = validateIsString and optionName = "''header''"
      and v = JNull]
  by (simp add: validateIsString_def)

section \<open>Properties of the response transformer and of the endpoint factory\<close>

lemma contentType_strips_parameters:
  "headers response ''Content-Type'' = Some (t @ CHR '';'' # params) \<Longrightarrow> CHR '';'' \<notin> set t
     \<Longrightarrow> contentType response = t"
  by (auto simp: contentType_def takeWhile_tail)

text \<open>
  Claim C4. When the content type of a response (the header up to its first semicolon) is
  not among the types a transformer accepts, the transformer throws an error whose message
  ends with that content type, and calls no body-decoding method. A response of type
  \<^verbatim>\<open>image/jpeg\<close> given to the JSON transformer fails citing \<^verbatim>\<open>image/jpeg\<close>.
\<close>

theorem unexpected_content_type:
  "(contentType response \<notin> set [''application/json'']
      \<longrightarrow> expectJsonResult response
            = ([], Inl (Thrown (Error (''Unexpected response Content-Type: '' @ contentType response)))))
   \<and> (contentType response \<notin> set [''text/html'', ''text/plain'']
      \<longrightarrow> expectTextResult response
            = ([], Inl (Thrown (Error (''Unexpected response Content-Type: '' @ contentType response)))))
   \<and> (contentType response \<notin> set [''image/jpeg'']
      \<longrightarrow> expectImageResult response
            = ([], Inl (Thrown (Error (''Unexpected response Content-Type: '' @ contentType response)))))
   \<and> (headers response ''Content-Type'' = Some ''image/jpeg''
      \<longrightarrow> expectJsonResult response
            = ([], Inl (Thrown (Error ''Unexpected response Content-Type: image/jpeg''))))"
  by (simp add: expectJsonResult_def expectTextResult_def expectImageResult_def
      expectContentType_def contentType_def)

theorem unexpected_content_type_witness:
  "expectJsonResult
     (\<lparr>status = 200, headers = (\<lambda>h. Some ''image/jpeg''), jsonBody = Inr (1::nat),
       textBody = Inr ''t'', blobBody = Inr (2::nat)\<rparr> :: (nat, nat, unit) response)
     = ([], Inl (Thrown (Error ''Unexpected response Content-Type: image/jpeg'')))
   \<and> expectTextResult
     (\<lparr>status = 200, headers = (\<lambda>h. Some ''image/jpeg''), jsonBody = Inr (1::nat),
       textBody = Inr ''t'', blobBody = Inr (2::nat)\<rparr> :: (nat, nat, unit) response)
     = ([], Inl (Thrown (Error ''Unexpected response Content-Type: image/jpeg'')))
   \<and> expectImageResult
     (\<lparr>status = 200, headers = (\<lambda>h. Some ''text/html; charset=utf-8''), jsonBody = Inr (1::nat),
       textBody = Inr ''t'', blobBody = Inr (2::nat)\<rparr> :: (nat, nat, unit) response)
     = ([], Inl (Thrown (Error ''Unexpected response Content-Type: text/html'')))"
  using unexpected_content_type [where response =
      "\<lparr>status = 200, headers = (\<lambda>h. Some ''image/jpeg''), jsonBody = Inr (1::nat),
        textBody = Inr ''t'', blobBody = Inr (2::nat)\<rparr> :: (nat, nat, unit) response"]
    unexpected_content_type [where response =
      "\<lparr>status = 200, headers = (\<lambda>h. Some ''text/html; charset=utf-8''), jsonBody = Inr (1::nat),
        textBody = Inr ''t'', blobBody = Inr (2::nat)\<rparr> :: (nat, nat, unit) response"]
  by (simp add: contentType_def)

text \<open>
  Claim C9. A response whose content type a transformer accepts has exactly one of its
  three body-decoding methods called by that transformer: \<^verbatim>\<open>json\<close> by the JSON transformer,
  \<^verbatim>\<open>text\<close> by the text transformer, \<^verbatim>\<open>blob\<close> by the image transformer.
\<close>

theorem accepted_response_decoded_once:
  "(contentType response \<in> set [''application/json'']
      \<longrightarrow> fst (expectJsonResult response) = [CallJson]
          \<and> decodeCalls (fst (expectJsonResult response)) = 1)
   \<and> (contentType response \<in> set [''text/html'', ''text/plain'']
      \<longrightarrow> fst (expectTextResult response) = [CallText]
          \<and> decodeCalls (fst (expectTextResult response)) = 1)
   \<and> (contentType response \<in> set [''image/jpeg'']
      \<longrightarrow> fst (expectImageResult response) = [CallBlob]
          \<and> decodeCalls (fst (expectImageResult response)) = 1)"
  by (simp add: expectJsonResult_def expectTextResult_def expectImageResult_def
      expectContentType_def decodeCalls_def)

theorem accepted_response_decoded_once_witness:
  "decodeCalls (fst (expectJsonResult
     (\<lparr>status = 200, headers = (\<lambda>h. Some ''application/json; charset=utf-8''),
       jsonBody = Inr (1::nat), textBody = Inr ''t'', blobBody = Inr (2::nat)\<rparr>
      :: (nat, nat, unit) response))) = 1
   \<and> decodeCalls (fst (expectTextResult
     (\<lparr>status = 200, headers = (\<lambda>h. Some ''text/plain''),
       jsonBody = Inr (1::nat), textBody = Inr ''t'', blobBody = Inr (2::nat)\<rparr>
      :: (nat, nat, unit) response))) = 1
   \<and> decodeCalls (fst (expectImageResult
     (\<lparr>status = 200, headers = (\<lambda>h. Some ''image/jpeg''),
       jsonBody = Inr (1::nat), textBody = Inr ''t'', blobBody = Inr (2::nat)\<rparr>
      :: (nat, nat, unit) response))) = 1"
  using accepted_response_decoded_once [where response =
      "\<lparr>status = 200, headers = (\<lambda>h. Some ''application/json; charset=utf-8''),
        jsonBody = Inr (1::nat), textBody = Inr ''t'', blobBody = Inr (2::nat)\<rparr>
       :: (nat, nat, unit) response"]
    accepted_response_decoded_once [where response =
      "\<lparr>status = 200, headers = (\<lambda>h. Some ''text/plain''),
        jsonBody = Inr (1::nat), textBody = Inr ''t'', blobBody = Inr (2::nat)\<rparr>
       :: (nat, nat, unit) response"]
    accepted_response_decoded_once [where response =
      "\<lparr>status = 200, headers = (\<lambda>h. Some ''image/jpeg''),
        jsonBody = Inr (1::nat), textBody = Inr ''t'', blobBody = Inr (2::nat)\<rparr>
       :: (nat, nat, unit) response"]
  by (simp add: contentType_def decodeCalls_def)

text \<open>
  Claim C3. When validation has passed, a URL has been rendered and the fetched response
  has a status other than 200, the endpoint call ends by throwing that response envelope
  itself; \<^verbatim>\<open>fetch\<close> is the only call made, so no body is decoded, and the result does not
  depend on the response transformer. This holds for \<^verbatim>\<open>createEndpoint\<close> of
  \<^verbatim>\<open>lib/client.ts\<close> and for the one of \<^verbatim>\<open>index.js\<close>.
\<close>

theorem non_200_throws_response:
  assumes "validateOptions options = Inr ()"
    and "render options = Inr url"
    and "fetch url = Inr response"
    and "status response \<noteq> 200"
  shows "createEndpoint fetch validateOptions render transformResponse options
           = ([CallFetch url], Inl (ThrownResponse response))
       \<and> createEndpoint_js fetch validateOptions render options
           = ([CallFetch url], Inl (ThrownResponse response))"
  using assms by (simp add: createEndpoint_def createEndpoint_js_def)

theorem non_200_throws_response_witness:
  "createEndpoint
     (\<lambda>url. Inr \<lparr>status = 404, headers = (\<lambda>h. Some ''application/json''),
        jsonBody = Inr (1::nat), textBody = Inr ''t'', blobBody = Inr (2::nat)\<rparr>
      :: unit + (nat, nat, unit) response)
     (validateSpecificBibleOptions (\<lambda>s. s)) (renderUrl ''baz'' [''bible/contents/'', []] [''bible''])
     expectJsonResult (OptObject [(''bible'', JStr ''leb'')])
   = ([CallFetch ''https://api.biblia.com/v1/bible/contents/leb?key=baz''],
      Inl (ThrownResponse \<lparr>status = 404, headers = (\<lambda>h. Some ''application/json''),
        jsonBody = Inr (1::nat), textBody = Inr ''t'', blobBody = Inr (2::nat)\<rparr>))"
proof -
  let ?r = "\<lparr>status = 404, headers = (\<lambda>h. Some ''application/json''),
        jsonBody = Inr (1::nat), textBody = Inr ''t'', blobBody = Inr (2::nat)\<rparr>
      :: (nat, nat, unit) response"
  let ?o = "OptObject [(''bible'', JStr ''leb'')]"
  let ?u = "''https://api.biblia.com/v1/bible/contents/leb?key=baz''"
  have v: "validateSpecificBibleOptions (\<lambda>s. s) ?o = Inr ()"
    by code_simp
  have u: "renderUrl ''baz'' [''bible/contents/'', []] [''bible''] ?o = Inr ?u"
    by code_simp
  have f: "(\<lambda>url. Inr ?r :: unit + (nat, nat, unit) response) ?u = Inr ?r"
    by simp
  have s: "status ?r \<noteq> 200"
    by simp
  from non_200_throws_response [where fetch = "\<lambda>url. Inr ?r" and response = ?r
      and validateOptions = "validateSpecificBibleOptions (\<lambda>s. s)" and options = ?o and url = ?u
      and render = "renderUrl ''baz'' [''bible/contents/'', []] [''bible'']"
      and transformResponse = expectJsonResult, OF v u f s]
  show ?thesis by simp
qed

text \<open>
  Claim C5. On a host with any case mapping, when the validator of an endpoint rejects the
  options, the endpoint call ends by throwing the validation error, and no call has been
  made: \<^verbatim>\<open>fetch\<close> is never invoked.
\<close>

theorem validation_failure_no_fetch:
  "validatorOf unicodeLower e options = Inl err \<Longrightarrow>
     createBibliaApiClient unicodeLower apiKey fetch e options = ([], Inl (Thrown err))"
  by (simp add: createBibliaApiClient_def createEndpoint_def)

theorem validation_failure_no_fetch_witness:
  "validatorOf (\<lambda>s. s) Search (OptObject [(''bible'', JStr ''leb''), (''query'', JNum ''3'')])
     = Inl (Error ''Option query must be a string.'')
   \<and> createBibliaApiClient (\<lambda>s. s) ''baz''
       (\<lambda>url. Inr \<lparr>status = 200, headers = (\<lambda>h. Some ''application/json''),
          jsonBody = Inr (1::nat), textBody = Inr ''t'', blobBody = Inr (2::nat)\<rparr>
        :: unit + (nat, nat, unit) response)
       Search (OptObject [(''bible'', JStr ''leb''), (''query'', JNum ''3'')])
     = ([], Inl (Thrown (Error ''Option query must be a string.'')))"
proof -
  have v: "validatorOf (\<lambda>s. s) Search (OptObject [(''bible'', JStr ''leb''), (''query'', JNum ''3'')])
             = Inl (Error ''Option query must be a string.'')"
    by code_simp
  from validation_failure_no_fetch [OF v] v show ?thesis
    by simp
qed


section \<open>Properties of the percent-encoding\<close>

lemma percentEncoded_append: "percentEncoded (s @ t) = percentEncoded s @ percentEncoded t"
  by (simp add: percentEncoded_def)

lemma percentEncoded_unescaped: "set s \<subseteq> set uriUnescaped \<Longrightarrow> percentEncoded s = s"
  by (induction s) (simp_all add: percentEncoded_def encodeChar_def)

lemma unchanged_subset: "set (listedUnchanged @ unencodedMarks) = set uriUnescaped"
  by (auto simp: listedUnchanged_def unencodedMarks_def uriUnescaped_def uriMark_def)

lemma encoded_not_unescaped:
  assumes "c \<in> set listedEncoded" and "c \<notin> set unencodedMarks"
  shows "c \<notin> set uriUnescaped"
proof -
  have u: "\<forall>d \<in> set '':?#[]@$&+,;=/% ''. d \<notin> set uriUnescaped"
    by code_simp
  from assms have "c \<in> set '':?#[]@$&+,;=/% ''"
    by (simp add: listedEncoded_def unencodedMarks_def)
  with u show ?thesis
    by blast
qed

text \<open>What \<^verbatim>\<open>renderUrl\<close> returns is built from the encoded forms of the substituted strings.\<close>

lemma encodeURIComponent_Inr: "encodeURIComponent s = Inr t \<Longrightarrow> t = percentEncoded s"
  by (simp add: encodeURIComponent_def split: if_splits)

lemma renderPair_Inr:
  "renderPair entry = Inr p \<Longrightarrow>
     p = percentEncoded (fst entry) @ ''='' @ percentEncoded (toString (snd entry))"
  by (auto simp: renderPair_def split: sum.splits dest: encodeURIComponent_Inr)

lemma renderPairs_Inr:
  "renderPairs entries = Inr pairs \<Longrightarrow>
     pairs = map (\<lambda>(key, value). percentEncoded key @ ''='' @ percentEncoded (toString value)) entries"
  by (induction entries arbitrary: pairs)
     (auto split: sum.splits dest!: renderPair_Inr)

lemma renderPath_Inr:
  "renderPath urlParts obj i names = Inr path \<Longrightarrow> length urlParts = Suc (i + length names) \<Longrightarrow>
     path = concat (map (\<lambda>(name, fragment). percentEncoded (toString (getProp obj name)) @ fragment)
              (zip names (drop (Suc i) urlParts)))"
proof (induction names arbitrary: i path)
  case Nil
  then show ?case by simp
next
  case (Cons name names)
  from Cons.prems(2) have d: "drop (Suc i) urlParts = urlParts ! Suc i # drop (Suc (Suc i)) urlParts"
    by (simp add: Cons_nth_drop_Suc)
  from Cons.prems(1) obtain encoded rest where
    e: "encodeURIComponent (toString (getProp obj name)) = Inr encoded"
    and r: "renderPath urlParts obj (Suc i) names = Inr rest"
    and p: "path = encoded @ part urlParts (Suc i) @ rest"
    by (auto simp: Let_def split: if_splits sum.splits)
  from r Cons.prems(2) have "rest = concat (map (\<lambda>(name, fragment).
      percentEncoded (toString (getProp obj name)) @ fragment) (zip names (drop (Suc (Suc i)) urlParts)))"
    by (intro Cons.IH) auto
  with e p Cons.prems(2) show ?case
    by (simp add: d part_def encodeURIComponent_Inr)
qed

lemma renderUrl_Inr:
  assumes "length urlParts = Suc (length names)"
    and "renderUrl apiKey urlParts names (OptObject obj) = Inr url"
  shows "url = baseUrl @ hd urlParts @ specPath urlParts names obj @ ''?''
           @ join ''&'' (map (\<lambda>(key, value). percentEncoded key @ ''='' @ percentEncoded (toString value))
               (filter (\<lambda>entry. \<not> truthyMember names (fst entry) \<and> snd entry \<noteq> JUndefined) obj
                @ [(''key'', JStr apiKey)]))"
proof -
  from assms(2) obtain path pairs where
    p: "renderPath urlParts obj 0 names = Inr path"
    and q: "renderPairs (filter (\<lambda>entry. \<not> truthyMember names (fst entry) \<and> snd entry \<noteq> JUndefined) obj
              @ [(''key'', JStr apiKey)]) = Inr pairs"
    and u: "url = baseUrl @ part urlParts 0 @ path @ ''?'' @ join ''&'' pairs"
    by (auto simp: renderUrl_def Let_def split: sum.splits)
  from p assms(1) have "path = specPath urlParts names obj"
    using renderPath_Inr [of urlParts obj 0 names path] by (simp add: specPath_def drop_Suc)
  moreover from assms(1) have "part urlParts 0 = hd urlParts"
    by (cases urlParts) (simp_all add: part_def)
  ultimately show ?thesis
    using u renderPairs_Inr [OF q] by simp
qed

text \<open>
  The specification lists \<^verbatim>\<open>! ' ( ) *\<close> among the encoded characters. The language's
  \<^verbatim>\<open>encodeURIComponent\<close>, which is what \<^verbatim>\<open>renderUrl\<close> applies, leaves them as they are: in
  the path and in the query of a rendered URL the slash, the space and the colon are
  encoded and the exclamation mark is not.
\<close>

theorem exclamation_mark_passes_unencoded:
  "renderUrl ''k'' (urlPartsOf TableOfContents) (namesOf TableOfContents)
     (OptObject [(''bible'', JStr ''a!/b c''), (''q r'', JStr ''Hi! 1:1'')])
     = Inr ''https://api.biblia.com/v1/bible/contents/a!%2Fb%20c?q%20r=Hi!%201%3A1&key=k''
   \<and> encodeURIComponent ''!'' = Inr ''!'' \<and> encodeURIComponent ''!'' \<noteq> Inr ''%21''
   \<and> encodeURIComponent unencodedMarks = Inr unencodedMarks"
  by code_simp

text \<open>
  Claim C7, as amended. Every string that \<^verbatim>\<open>renderUrl\<close> substitutes into the path or the
  query of a URL it returns (the option of each placeholder, each key and value of the
  query, the API key) stands there in its percent-encoded form. That encoding works
  character by character (it distributes over concatenation): a string made of letters,
  digits and the marks \<^verbatim>\<open>- _ . ~ ! ' ( ) *\<close> passes through unchanged; each of the characters
  \<^verbatim>\<open>: ? # [ ] @ $ & + , ; = / %\<close> and the space is replaced by a percent sign and the two
  upper-case hexadecimal digits of its code.
\<close>

theorem percent_encoding:
  "(length urlParts = Suc (length names)
      \<and> renderUrl apiKey urlParts names (OptObject obj) = Inr url
      \<longrightarrow> url = baseUrl @ hd urlParts
            @ concat (map (\<lambda>(name, fragment). percentEncoded (toString (getProp obj name)) @ fragment)
                (zip names (tl urlParts)))
            @ ''?''
            @ join ''&'' (map (\<lambda>(key, value). percentEncoded key @ ''='' @ percentEncoded (toString value))
                (filter (\<lambda>entry. \<not> truthyMember names (fst entry) \<and> snd entry \<noteq> JUndefined) obj
                 @ [(''key'', JStr apiKey)])))
   \<and> percentEncoded (s @ t) = percentEncoded s @ percentEncoded t
   \<and> (set s \<subseteq> set (listedUnchanged @ unencodedMarks) \<longrightarrow> percentEncoded s = s)
   \<and> (c \<in> set listedEncoded \<and> c \<notin> set unencodedMarks
        \<longrightarrow> percentEncoded [c] = percentByte c)
   \<and> map (\<lambda>c. percentEncoded [c]) '':?#[]@$&+,;=/% ''
       = [''%3A'', ''%3F'', ''%23'', ''%5B'', ''%5D'', ''%40'', ''%24'', ''%26'', ''%2B'', ''%2C'',
          ''%3B'', ''%3D'', ''%2F'', ''%25'', ''%20'']"
proof (intro conjI impI)
  assume "length urlParts = Suc (length names)
      \<and> renderUrl apiKey urlParts names (OptObject obj) = Inr url"
  then show "url = baseUrl @ hd urlParts
            @ concat (map (\<lambda>(name, fragment). percentEncoded (toString (getProp obj name)) @ fragment)
                (zip names (tl urlParts)))
            @ ''?''
            @ join ''&'' (map (\<lambda>(key, value). percentEncoded key @ ''='' @ percentEncoded (toString value))
                (filter (\<lambda>entry. \<not> truthyMember names (fst entry) \<and> snd entry \<noteq> JUndefined) obj
                 @ [(''key'', JStr apiKey)]))"
    using renderUrl_Inr [of urlParts names apiKey obj url] by (simp add: specPath_def)
next
  show "percentEncoded (s @ t) = percentEncoded s @ percentEncoded t"
    by (rule percentEncoded_append)
next
  assume "set s \<subseteq> set (listedUnchanged @ unencodedMarks)"
  then show "percentEncoded s = s"
    by (simp only: unchanged_subset percentEncoded_unescaped)
next
  assume "c \<in> set listedEncoded \<and> c \<notin> set unencodedMarks"
  then have "c \<notin> set uriUnescaped"
    by (simp add: encoded_not_unescaped)
  then show "percentEncoded [c] = percentByte c"
    by (simp add: percentEncoded_def encodeChar_def)
next
  show "map (\<lambda>c. percentEncoded [c]) '':?#[]@$&+,;=/% ''
       = [''%3A'', ''%3F'', ''%23'', ''%5B'', ''%5D'', ''%40'', ''%24'', ''%26'', ''%2B'', ''%2C'',
          ''%3B'', ''%3D'', ''%2F'', ''%25'', ''%20'']"
    by code_simp
qed

theorem percent_encoding_witness:
  "renderUrl ''a b'' [''bible/search/'', []] [''bible'']
     (OptObject [(''bible'', JStr ''x/y''), (''query'', JStr ''a&b=c''), (''m n'', JStr ''(ok)'')])
     = Inr ''https://api.biblia.com/v1/bible/search/x%2Fy?query=a%26b%3Dc&m%20n=(ok)&key=a%20b''
   \<and> percentEncoded ''Gen_1.1-2~(a)'' = ''Gen_1.1-2~(a)''
   \<and> percentEncoded ''/'' = ''%2F''"
proof -
  let ?obj = "[(''bible'', JStr ''x/y''), (''query'', JStr ''a&b=c''), (''m n'', JStr ''(ok)'')]"
  let ?url = "''https://api.biblia.com/v1/bible/search/x%2Fy?query=a%26b%3Dc&m%20n=(ok)&key=a%20b''"
  have r: "length [''bible/search/'', []] = Suc (length [''bible''])
      \<and> renderUrl ''a b'' [''bible/search/'', []] [''bible''] (OptObject ?obj) = Inr ?url"
    by code_simp
  have a: "set ''Gen_1.1-2~(a)'' \<subseteq> set (listedUnchanged @ unencodedMarks)"
    by code_simp
  have b: "CHR ''/'' \<in> set listedEncoded \<and> CHR ''/'' \<notin> set unencodedMarks"
    by code_simp
  have c: "percentByte CHR ''/'' = ''%2F''"
    by code_simp
  note p = percent_encoding [where s = "''Gen_1.1-2~(a)''" and c = "CHR ''/''" and t = "[]"
      and urlParts = "[''bible/search/'', []]" and names = "[''bible'']" and apiKey = "''a b''"
      and obj = ?obj and url = ?url]
  from p r have "?url = baseUrl @ hd [''bible/search/'', []]
            @ concat (map (\<lambda>(name, fragment). percentEncoded (toString (getProp ?obj name)) @ fragment)
                (zip [''bible''] (tl [''bible/search/'', []])))
            @ ''?''
            @ join ''&'' (map (\<lambda>(key, value). percentEncoded key @ ''='' @ percentEncoded (toString value))
                (filter (\<lambda>entry. \<not> truthyMember [''bible''] (fst entry) \<and> snd entry \<noteq> JUndefined) ?obj
                 @ [(''key'', JStr ''a b'')]))"
    by blast
  moreover from p a have "percentEncoded ''Gen_1.1-2~(a)'' = ''Gen_1.1-2~(a)''"
    by blast
  moreover from p b c have "percentEncoded ''/'' = ''%2F''"
    by simp
  ultimately show ?thesis
    using r by blast
qed

section \<open>Properties of the URL template renderer\<close>

lemma renderPath_missing:
  "find (\<lambda>n. getProp obj n = JUndefined) names = Some name \<Longrightarrow>
     renderPath urlParts obj i names
       = (if \<exists>n \<in> set (takeWhile (\<lambda>n. getProp obj n \<noteq> JUndefined) names).
               hasLoneSurrogate (toString (getProp obj n))
          then Inl URIError
          else Inl (Error (''Parameter '' @ name @ '' is required.'')))"
proof (induction names arbitrary: i)
  case Nil
  then show ?case by simp
next
  case (Cons n names)
  show ?case
  proof (cases "getProp obj n = JUndefined")
    case True
    with Cons.prems show ?thesis by simp
  next
    case False
    with Cons.prems have f: "find (\<lambda>n. getProp obj n = JUndefined) names = Some name"
      by simp
    show ?thesis
    proof (cases "hasLoneSurrogate (toString (getProp obj n))")
      case True
      with False show ?thesis
        by (simp add: Let_def encodeURIComponent_def)
    next
      case s: False
      with False Cons.IH [OF f, of "Suc i"] show ?thesis
        by (simp add: Let_def encodeURIComponent_def)
    qed
  qed
qed

text \<open>
  The \<^verbatim>\<open>renderUrl\<close> of \<^verbatim>\<open>index.js\<close> does not look whether a placeholder's option is present:
  for the table-of-contents template and an empty options object it returns a URL, with the
  text \<^verbatim>\<open>undefined\<close> in the placeholder's place.
\<close>

lemma renderUrl_js_missing_placeholder:
  "renderUrl_js ''baz'' [''bible/contents/'', []] [''bible''] (OptObject [])
     = Inr ''https://api.biblia.com/v1/bible/contents/undefined?key=baz''"
  by code_simp

text \<open>
  In \<^verbatim>\<open>lib/client.ts\<close> the placeholders are rendered one after the other, each one checked
  and then encoded. For the content template and the options \<^verbatim>\<open>{bible: '\uD800'}\<close>, in which
  \<^verbatim>\<open>format\<close> is absent, the call fails on the lone surrogate of \<^verbatim>\<open>bible\<close> with the URIError
  of \<^verbatim>\<open>encodeURIComponent\<close>, before \<^verbatim>\<open>format\<close> is looked at.
\<close>

theorem lone_surrogate_before_missing_placeholder:
  "getProp [(''bible'', JStr [CHR 0xED, CHR 0xA0, CHR 0x80])] ''format'' = JUndefined
   \<and> renderUrl ''baz'' (urlPartsOf Content) (namesOf Content)
        (OptObject [(''bible'', JStr [CHR 0xED, CHR 0xA0, CHR 0x80])]) = Inl URIError
   \<and> renderUrl ''baz'' (urlPartsOf Content) (namesOf Content)
        (OptObject [(''bible'', JStr [CHR 0xED, CHR 0xA0, CHR 0x80])])
       \<noteq> Inl (Error ''Parameter format is required.'')"
  by code_simp

text \<open>
  Claim C8, as amended. In \<^verbatim>\<open>lib/client.ts\<close>, for every template and every options object in
  which the option of some placeholder is \<^verbatim>\<open>undefined\<close>, \<^verbatim>\<open>renderUrl\<close> produces no URL. It
  fails with \<^verbatim>\<open>Parameter <name> is required.\<close>, naming the first such placeholder of the
  template, unless the option of a placeholder before that one holds a lone surrogate: then
  it fails with the URIError of \<^verbatim>\<open>encodeURIComponent\<close>.
\<close>

theorem missing_placeholder_required:
  "(find (\<lambda>n. getProp obj n = JUndefined) names = Some name
      \<longrightarrow> renderUrl apiKey urlParts names (OptObject obj)
            = (if \<exists>n \<in> set (takeWhile (\<lambda>n. getProp obj n \<noteq> JUndefined) names).
                    hasLoneSurrogate (toString (getProp obj n))
               then Inl URIError
               else Inl (Error (''Parameter '' @ name @ '' is required.''))))
   \<and> (name \<in> set names \<and> getProp obj name = JUndefined
      \<longrightarrow> (\<exists>e. renderUrl apiKey urlParts names (OptObject obj) = Inl e))"
proof (intro conjI impI)
  assume "find (\<lambda>n. getProp obj n = JUndefined) names = Some name"
  then show "renderUrl apiKey urlParts names (OptObject obj)
            = (if \<exists>n \<in> set (takeWhile (\<lambda>n. getProp obj n \<noteq> JUndefined) names).
                    hasLoneSurrogate (toString (getProp obj n))
               then Inl URIError
               else Inl (Error (''Parameter '' @ name @ '' is required.'')))"
    by (simp add: renderUrl_def renderPath_missing)
next
  assume a: "name \<in> set names \<and> getProp obj name = JUndefined"
  then obtain n where n: "find (\<lambda>n. getProp obj n = JUndefined) names = Some n"
    by (cases "find (\<lambda>n. getProp obj n = JUndefined) names") (auto simp: find_None_iff)
  then show "\<exists>e. renderUrl apiKey urlParts names (OptObject obj) = Inl e"
    by (simp add: renderUrl_def renderPath_missing)
qed

theorem missing_placeholder_required_witness:
  "renderUrl ''baz'' [''bible/content/'', ''.'', []] [''bible'', ''format'']
     (OptObject [(''bible'', JStr ''leb''), (''passage'', JStr ''Genesis 1:1'')])
   = Inl (Error ''Parameter format is required.'')
   \<and> (\<exists>e. renderUrl ''baz'' [''bible/content/'', ''.'', []] [''bible'', ''format'']
              (OptObject [(''bible'', JStr ''leb''), (''passage'', JStr ''Genesis 1:1'')]) = Inl e)"
proof -
  let ?obj = "[(''bible'', JStr ''leb''), (''passage'', JStr ''Genesis 1:1'')]"
  have f: "find (\<lambda>n. getProp ?obj n = JUndefined) [''bible'', ''format''] = Some ''format''"
    by code_simp
  have g: "''format'' \<in> set [''bible'', ''format''] \<and> getProp ?obj ''format'' = JUndefined"
    by code_simp
  have h: "\<not> (\<exists>n \<in> set (takeWhile (\<lambda>n. getProp ?obj n \<noteq> JUndefined) [''bible'', ''format'']).
               hasLoneSurrogate (toString (getProp ?obj n)))"
    by code_simp
  note m = missing_placeholder_required [where names = "[''bible'', ''format'']"
      and name = "''format''" and obj = ?obj and apiKey = "''baz''"
      and urlParts = "[''bible/content/'', ''.'', []]"]
  from m f h have "renderUrl ''baz'' [''bible/content/'', ''.'', []] [''bible'', ''format'']
     (OptObject ?obj) = Inl (Error ''Parameter format is required.'')"
    by simp
  moreover from m g have "\<exists>e. renderUrl ''baz'' [''bible/content/'', ''.'', []] [''bible'', ''format'']
              (OptObject ?obj) = Inl e"
    by blast
  ultimately show ?thesis
    by blast
qed

section \<open>Unknown keys and the query string\<close>

lemma options_required:
  "createOptionsValidator validators OptNull = Inl (Error ''Options is required.'')"
  "createOptionsValidator validators OptUndefined = Inl (Error ''Options is required.'')"
  by (simp_all add: createOptionsValidator_def)

lemma validateFunctions_keys:
  "map fst (map (\<lambda>(key, createValidator). (key, createValidator key)) validators) = map fst validators"
  by (induction validators) auto

text \<open>
  A key that is neither declared in the schema nor the name of an inherited property is
  rejected, and the first such key of the object is the one the message names.
\<close>

lemma unsupported_key_rejected:
  assumes "find (\<lambda>key. key \<notin> set (map fst validators) \<and> key \<notin> set objectPrototypeKeys)
             (map fst obj) = Some key"
  shows "createOptionsValidator validators (OptObject obj)
           = Inl (Error (''Option '' @ key @ '' is not supported.''))"
proof -
  have "map fst (map (\<lambda>(key, createValidator). (key, createValidator key)) validators)
          = map fst validators"
    by (rule validateFunctions_keys)
  with assms show ?thesis
    unfolding createOptionsValidator_def Let_def truthyMember_def
    by (simp only: options_arg.case de_Morgan_disj option.case)
qed

text \<open>The two URLs that the specification gives as examples are the ones rendered.\<close>

lemma renderUrl_content_example:
  assumes "\<not> hasLoneSurrogate apiKey"
  shows "renderUrl apiKey (urlPartsOf Content) (namesOf Content)
     (OptObject [(''bible'', JStr ''leb''), (''passage'', JStr ''Genesis 1:1''),
                 (''format'', JStr ''html''), (''style'', JStr ''fullyFormatted'')])
   = Inr (''https://api.biblia.com/v1/bible/content/leb.html?passage=Genesis%201%3A1&style=fullyFormatted&key=''
          @ percentEncoded apiKey)"
proof -
  have e: "encodeURIComponent ''leb'' = Inr ''leb''" "encodeURIComponent ''html'' = Inr ''html''"
    "encodeURIComponent ''passage'' = Inr ''passage''" "encodeURIComponent ''style'' = Inr ''style''"
    "encodeURIComponent ''key'' = Inr ''key''"
    "encodeURIComponent ''Genesis 1:1'' = Inr ''Genesis%201%3A1''"
    "encodeURIComponent ''fullyFormatted'' = Inr ''fullyFormatted''"
    by code_simp+
  from assms have k: "encodeURIComponent apiKey = Inr (percentEncoded apiKey)"
    by (simp add: encodeURIComponent_def)
  show ?thesis
    by (simp add: renderUrl_def getProp_def part_def renderPair_def baseUrl_def truthyMember_def
        objectPrototypeKeys_def e k)
qed

lemma renderUrl_tableOfContents_example:
  "renderUrl ''baz'' (urlPartsOf TableOfContents) (namesOf TableOfContents)
     (OptObject [(''bible'', JStr ''leb'')])
   = Inr ''https://api.biblia.com/v1/bible/contents/leb?key=baz''"
  by code_simp

text \<open>What validation guarantees about the placeholders of the ten templates.\<close>

lemma validateEach_all:
  "validateEach fs obj = Inr () \<Longrightarrow> (key, validate) \<in> set fs \<Longrightarrow> validate (getProp obj key) = Inr ()"
  by (induction fs obj rule: validateEach.induct) (auto split: sum.splits)

lemma validated_rules_hold:
  assumes "createOptionsValidator validators (OptObject obj) = Inr ()"
    and "(key, createValidator) \<in> set validators"
  shows "createValidator key (getProp obj key) = Inr ()"
proof -
  from assms(1) have "validateEach (map (\<lambda>(key, createValidator). (key, createValidator key)) validators) obj = Inr ()"
    by (simp add: createOptionsValidator_def Let_def split: option.splits)
  moreover from assms(2) have "(key, createValidator key) \<in> set (map (\<lambda>(key, createValidator). (key, createValidator key)) validators)"
    by force
  ultimately show ?thesis
    by (rule validateEach_all)
qed

lemma enum_accepts_strings_only:
  "validateEnumMembership unicodeLower vs optionName v = Inr () \<Longrightarrow> \<exists>s. v = JStr s"
  by (cases v) (simp_all add: validateEnumMembership_def)

lemma placeholders_declared:
  assumes "n \<in> set (namesOf e)"
  shows "\<exists>vs schema. validatorOf unicodeLower e = createOptionsValidator schema
           \<and> (n, validateEnumMembership unicodeLower vs) \<in> set schema"
proof -
  have c: "validatorOf unicodeLower Content = createOptionsValidator (bibleContentSchema unicodeLower)"
    and s: "validatorOf unicodeLower Search = createOptionsValidator (searchSchema unicodeLower)"
    and t: "validatorOf unicodeLower TableOfContents
              = createOptionsValidator (specificBibleSchema unicodeLower)"
    and f: "validatorOf unicodeLower FindBible
              = createOptionsValidator (specificBibleSchema unicodeLower)"
    and i: "validatorOf unicodeLower Image = createOptionsValidator (specificBibleSchema unicodeLower)"
    by (simp_all add: validateBibleContentOptions_def validateSearchOptions_def
        validateSpecificBibleOptions_def fun_eq_iff)
  have cb: "(''bible'', validateEnumMembership unicodeLower availableBibles)
               \<in> set (bibleContentSchema unicodeLower)"
    and cf: "(''format'', validateEnumMembership unicodeLower [''txt'', ''html'', ''txt'', ''html''])
               \<in> set (bibleContentSchema unicodeLower)"
    and sb: "(''bible'', validateEnumMembership unicodeLower availableBibles)
               \<in> set (searchSchema unicodeLower)"
    and tb: "(''bible'', validateEnumMembership unicodeLower availableBibles)
               \<in> set (specificBibleSchema unicodeLower)"
    by (simp_all add: bibleContentSchema_def searchSchema_def specificBibleSchema_def
        bibleVersionValidator_def fun_eq_iff)
  from assms consider "e = Content" "n = ''bible''" | "e = Content" "n = ''format''"
    | "e = Search" "n = ''bible''" | "e = TableOfContents" "n = ''bible''"
    | "e = FindBible" "n = ''bible''" | "e = Image" "n = ''bible''"
    by (cases e) auto
  then show ?thesis
  proof cases
    case 1 with c cb show ?thesis by blast
  next
    case 2 with c cf show ?thesis by blast
  next
    case 3 with s sb show ?thesis by blast
  next
    case 4 with t tb show ?thesis by blast
  next
    case 5 with f tb show ?thesis by blast
  next
    case 6 with i tb show ?thesis by blast
  qed
qed

lemma validated_placeholders_present:
  assumes "validatorOf unicodeLower e (OptObject obj) = Inr ()" and "n \<in> set (namesOf e)"
  shows "\<exists>s. getProp obj n = JStr s"
proof -
  from assms(2) obtain vs schema where
    s: "validatorOf unicodeLower e = createOptionsValidator schema"
      "(n, validateEnumMembership unicodeLower vs) \<in> set schema"
    using placeholders_declared by blast
  with assms(1) have "validateEnumMembership unicodeLower vs n (getProp obj n) = Inr ()"
    by (simp add: validated_rules_hold)
  then show ?thesis
    by (rule enum_accepts_strings_only)
qed

lemma getProp_own: "getProp obj n = JStr s \<Longrightarrow> (n, JStr s) \<in> set obj"
  by (auto simp: getProp_def split: option.splits if_splits dest: map_of_SomeD)

lemma renderPath_present:
  assumes "\<forall>n \<in> set names. getProp obj n \<noteq> JUndefined
             \<and> \<not> hasLoneSurrogate (toString (getProp obj n))"
    and "length urlParts = Suc (i + length names)"
  shows "renderPath urlParts obj i names
           = Inr (concat (map (\<lambda>(name, fragment). percentEncoded (toString (getProp obj name)) @ fragment)
                   (zip names (drop (Suc i) urlParts))))"
  using assms
proof (induction names arbitrary: i)
  case Nil
  then show ?case by simp
next
  case (Cons name names)
  from Cons.prems(2) have d: "drop (Suc i) urlParts = urlParts ! Suc i # drop (Suc (Suc i)) urlParts"
    by (simp add: Cons_nth_drop_Suc)
  from Cons.prems have "renderPath urlParts obj (Suc i) names
           = Inr (concat (map (\<lambda>(name, fragment). percentEncoded (toString (getProp obj name)) @ fragment)
                   (zip names (drop (Suc (Suc i)) urlParts))))"
    by (intro Cons.IH) auto
  with Cons.prems show ?case
    by (simp add: d part_def Let_def encodeURIComponent_def)
qed

lemma renderPairs_present:
  "list_all (\<lambda>(key, value). \<not> hasLoneSurrogate key \<and> \<not> hasLoneSurrogate (toString value)) entries
     \<Longrightarrow> renderPairs entries
           = Inr (map (\<lambda>(key, value). percentEncoded key @ ''='' @ percentEncoded (toString value)) entries)"
  by (induction entries) (auto simp: renderPair_def encodeURIComponent_def)

lemma lengths_of_templates: "length (urlPartsOf e) = Suc (length (namesOf e))"
  by (cases e) simp_all

text \<open>
  For every endpoint, an options object that its validator accepts, that has no key named
  like an inherited property and whose strings can all be encoded is rendered as the
  specification describes: base address, literal prefix, path, question mark, query string.
\<close>

lemma validated_options_render:
  assumes "validatorOf unicodeLower e (OptObject obj) = Inr ()"
    and "set (map fst obj) \<inter> set objectPrototypeKeys = {}"
    and "encodable apiKey obj"
  shows "renderUrl apiKey (urlPartsOf e) (namesOf e) (OptObject obj)
           = Inr (baseUrl @ hd (urlPartsOf e) @ specPath (urlPartsOf e) (namesOf e) obj
                  @ ''?'' @ specQuery apiKey (namesOf e) obj)"
proof -
  let ?ok = "\<lambda>(key, value). \<not> hasLoneSurrogate key \<and> \<not> hasLoneSurrogate (toString value)"
  from assms(3) have all: "list_all ?ok obj" and key: "\<not> hasLoneSurrogate apiKey"
    by (simp_all add: encodable_def)
  have "\<forall>n \<in> set (namesOf e). getProp obj n \<noteq> JUndefined
          \<and> \<not> hasLoneSurrogate (toString (getProp obj n))"
  proof
    fix n assume "n \<in> set (namesOf e)"
    with assms(1) obtain s where s: "getProp obj n = JStr s"
      using validated_placeholders_present by blast
    then have "(n, JStr s) \<in> set obj"
      by (rule getProp_own)
    with all have "\<not> hasLoneSurrogate s"
      by (auto simp: list_all_iff)
    with s show "getProp obj n \<noteq> JUndefined \<and> \<not> hasLoneSurrogate (toString (getProp obj n))"
      by simp
  qed
  then have p: "renderPath (urlPartsOf e) obj 0 (namesOf e)
                  = Inr (specPath (urlPartsOf e) (namesOf e) obj)"
    by (simp add: renderPath_present lengths_of_templates specPath_def drop_Suc)
  have f: "filter (\<lambda>entry. \<not> truthyMember (namesOf e) (fst entry) \<and> snd entry \<noteq> JUndefined) obj
          = filter (\<lambda>(key, value). key \<notin> set (namesOf e) \<and> value \<noteq> JUndefined) obj"
    using assms(2) by (intro filter_cong) (auto simp: truthyMember_def)
  from all key have "list_all ?ok
      (filter (\<lambda>(key, value). key \<notin> set (namesOf e) \<and> value \<noteq> JUndefined) obj
       @ [(''key'', JStr apiKey)])"
    by (auto simp: list_all_iff)
  then have q: "renderPairs (filter (\<lambda>(key, value). key \<notin> set (namesOf e) \<and> value \<noteq> JUndefined) obj
                  @ [(''key'', JStr apiKey)])
        = Inr (map (\<lambda>(key, value). percentEncoded key @ ''='' @ percentEncoded (toString value))
            (filter (\<lambda>(key, value). key \<notin> set (namesOf e) \<and> value \<noteq> JUndefined) obj
             @ [(''key'', JStr apiKey)]))"
    by (rule renderPairs_present)
  have h: "part (urlPartsOf e) 0 = hd (urlPartsOf e)"
    by (cases e) (simp_all add: part_def)
  show ?thesis
    unfolding renderUrl_def specQuery_def
    by (simp only: options_arg.case p f q h sum.case Let_def)
qed

text \<open>
  Claim C2. The validator is meant to reject every key that the schema does not declare.
  It tests \<^verbatim>\<open>validateFunctions[key]\<close> for truth, and that read also finds the properties
  a plain object inherits: on every host, the options \<^verbatim>\<open>{bible: 'leb', toString: 'x'}\<close> pass
  the validator of the table-of-contents endpoint, whose schema declares \<^verbatim>\<open>bible\<close> only.
\<close>

theorem inherited_name_passes_validation:
  "''toString'' \<notin> set (map fst (specificBibleSchema unicodeLower))
   \<and> validatorOf unicodeLower TableOfContents
        (OptObject [(''bible'', JStr ''leb''), (''toString'', JStr ''x'')]) = Inr ()"
  by code_simp

text \<open>
  Claim C1. The options \<^verbatim>\<open>{bible: 'leb', toString: 'x'}\<close> having passed validation, the
  renderer reads \<^verbatim>\<open>namesHash[key]\<close> for truth in the same way, takes \<^verbatim>\<open>toString\<close> for a
  placeholder name and leaves it out of the query string, where the specification has the
  pair \<^verbatim>\<open>toString=x\<close> before the API key.
\<close>

theorem inherited_name_dropped_from_query:
  "validatorOf unicodeLower TableOfContents
     (OptObject [(''bible'', JStr ''leb''), (''toString'', JStr ''x'')]) = Inr ()
   \<and> ''toString'' \<notin> set (namesOf TableOfContents)
   \<and> renderUrl ''baz'' (urlPartsOf TableOfContents) (namesOf TableOfContents)
        (OptObject [(''bible'', JStr ''leb''), (''toString'', JStr ''x'')])
       = Inr ''https://api.biblia.com/v1/bible/contents/leb?key=baz''
   \<and> specQuery ''baz'' (namesOf TableOfContents)
        [(''bible'', JStr ''leb''), (''toString'', JStr ''x'')] = ''toString=x&key=baz''"
  by code_simp

end
